theory Spec2Isabelle
  imports Complex_Main
begin

section \<open>Tensors\<close>

text \<open>
  The notebook \<^verbatim>\<open>examples/spectral_mixture_gp_regression.ipynb\<close> works on
  one-dimensional tensors of floating-point numbers. They are modelled as lists of
  real numbers, a matrix as the list of its rows. Rounding is not modelled.
\<close>

type_synonym vec = "real list"
type_synonym mat = "real list list"

text \<open>
  \<^verbatim>\<open>torch.linspace(start, end, steps)\<close>: \<open>steps\<close> points from \<open>start\<close> to
  \<open>end\<close>, both included, at equal distances; a single step gives \<open>start\<close> alone.
\<close>

definition linspace :: "real \<Rightarrow> real \<Rightarrow> nat \<Rightarrow> vec" where
  "linspace start end steps =
     (if steps = 1 then [start]
      else map (\<lambda>i. start + real i * ((end - start) / real (steps - 1))) [0..<steps])"

text \<open>The inner product of two vectors.\<close>

definition dot :: "vec \<Rightarrow> vec \<Rightarrow> real" where
  "dot u v = (\<Sum>(a, b) \<leftarrow> zip u v. a * b)"

section \<open>Training data (cell 2)\<close>

text \<open>
  \<^verbatim>\<open>
  train_x = Variable(torch.linspace(0, 0.75, 11))
  train_y = Variable(torch.sin(train_x.data * (2 * math.pi)) + torch.randn(train_x.size()) * 0.2)
  \<close>
  \<^verbatim>\<open>torch.randn\<close> reads and advances the generator of the process. The generator
  is the explicit state \<open>g\<close>; \<open>randn g n\<close> returns \<open>n\<close> draws and the next state.
  The notebook never seeds the generator: its first state is an input of the run.
\<close>

definition train_x :: vec where
  "train_x = linspace 0 0.75 11"

definition train_y :: "vec \<Rightarrow> vec" where
  "train_y z = map2 (+) (map (\<lambda>x. sin (x * (2 * pi))) train_x) (map (\<lambda>e. e * 0.2) z)"

definition generate_data :: "('g \<Rightarrow> nat \<Rightarrow> vec \<times> 'g) \<Rightarrow> 'g \<Rightarrow> (vec \<times> vec) \<times> 'g" where
  "generate_data randn g =
     (let (z, g') = randn g (length train_x)
      in ((train_x, train_y z), g'))"

text \<open>
  The noise of a run: what cell 2 adds to the true function \<open>sin(2\<pi>x)\<close> in the targets
  it produces from the generator state \<open>g\<close>.
\<close>

definition noise :: "('g \<Rightarrow> nat \<Rightarrow> vec \<times> 'g) \<Rightarrow> 'g \<Rightarrow> vec" where
  "noise randn g =
     map2 (-) (snd (fst (generate_data randn g))) (map (\<lambda>x. sin (x * (2 * pi))) train_x)"

text \<open>
  The generator state that a run starts from is random. \<open>E f\<close> is the expectation of
  \<open>f\<close> of that state, and \<open>mgf E X\<close> is the moment generating function of a vector \<open>X\<close>
  that is computed from the state, \<open>t \<mapsto> E[exp(t \<cdot> X)]\<close>. The entries of \<open>X\<close> are \<open>n\<close>
  independent Gaussian variables of mean zero and variance \<open>v\<close> exactly when the moment
  generating function of \<open>X\<close> is \<open>exp(v (t \<cdot> t) / 2)\<close> at every \<open>t\<close>. For
  \<^verbatim>\<open>torch.randn\<close> the variance is one.
\<close>

definition mgf :: "(('g \<Rightarrow> real) \<Rightarrow> real) \<Rightarrow> ('g \<Rightarrow> vec) \<Rightarrow> vec \<Rightarrow> real" where
  "mgf E X t = E (\<lambda>g. exp (dot t (X g)))"

definition independent_gaussians ::
  "(('g \<Rightarrow> real) \<Rightarrow> real) \<Rightarrow> ('g \<Rightarrow> vec) \<Rightarrow> nat \<Rightarrow> real \<Rightarrow> bool" where
  "independent_gaussians E X n v \<longleftrightarrow>
     (\<forall>g. length (X g) = n) \<and> (\<forall>t. length t = n \<longrightarrow> mgf E X t = exp (v * dot t t / 2))"

section \<open>Parameters and their constraints (cell 4)\<close>

text \<open>
  \<^verbatim>\<open>
  self.mean_module = ConstantMean(constant_bounds=(-1, 1))
  self.covar_module = SpectralMixtureKernel(n_mixtures=3)
  likelihood = GaussianLikelihood(log_noise_bounds=(-5, 5))
  \<close>
  \<open>model.parameters()\<close> are the stored (raw) tensors that the optimizer writes: the
  constant of the mean, the three vectors of the kernel and the log noise of the
  likelihood.
\<close>

datatype error = ConfigurationError | NumericalInstability

record gp_params =
  raw_constant :: real
  raw_weights :: vec
  raw_frequencies :: vec
  raw_variances :: vec
  raw_log_noise :: real

definition constant_bounds :: "real \<times> real" where
  "constant_bounds = (-1, 1)"

definition log_noise_bounds :: "real \<times> real" where
  "log_noise_bounds = (-5, 5)"

definition n_mixtures :: nat where
  "n_mixtures = 3"

text \<open>
  Modelled from the spec: the classes \<^verbatim>\<open>ConstantMean\<close>,
  \<^verbatim>\<open>SpectralMixtureKernel\<close> and \<^verbatim>\<open>GaussianLikelihood\<close> are not among the
  sources. Sections 4.2 to 4.4 of the specification constrain a parameter by a
  reparameterization of the stored value: a scalar bounded to an interval is clipped to
  it, a positive vector is the exponential of the stored one, and the noise variance is
  the exponential of the log noise clipped to its interval. Bounds whose lower end is
  not below the upper end are refused at construction with \<open>ConfigurationError\<close>
  (section 7).
\<close>

definition check_bounds :: "real \<times> real \<Rightarrow> error + real \<times> real" where
  "check_bounds bounds =
     (if snd bounds \<le> fst bounds then Inl ConfigurationError else Inr bounds)"

definition clip :: "real \<times> real \<Rightarrow> real \<Rightarrow> real" where
  "clip bounds r = max (fst bounds) (min (snd bounds) r)"

definition mean_constant :: "gp_params \<Rightarrow> real" where
  "mean_constant p = clip constant_bounds (raw_constant p)"

definition mixture_weights :: "gp_params \<Rightarrow> vec" where
  "mixture_weights p = map exp (raw_weights p)"

definition mixture_frequencies :: "gp_params \<Rightarrow> vec" where
  "mixture_frequencies p = map exp (raw_frequencies p)"

definition mixture_variances :: "gp_params \<Rightarrow> vec" where
  "mixture_variances p = map exp (raw_variances p)"

definition log_noise :: "gp_params \<Rightarrow> real" where
  "log_noise p = clip log_noise_bounds (raw_log_noise p)"

definition noise_variance :: "gp_params \<Rightarrow> real" where
  "noise_variance p = exp (log_noise p)"

definition has_n_mixtures :: "gp_params \<Rightarrow> bool" where
  "has_n_mixtures p \<longleftrightarrow>
     length (raw_weights p) = n_mixtures \<and> length (raw_frequencies p) = n_mixtures \<and>
     length (raw_variances p) = n_mixtures"

section \<open>Spectral mixture kernel, mean and likelihood\<close>

text \<open>
  Modelled from the spec: the kernel of section 4.2,
  \<open>k(\<tau>) = \<Sum>\<^sub>q w\<^sub>q \<cdot> exp(-2\<pi>\<^sup>2 \<tau>\<^sup>2 v\<^sub>q) \<cdot> cos(2\<pi> \<tau> \<mu>\<^sub>q)\<close> with \<open>\<tau> = x - x'\<close>,
  and its operation \<open>covariance(X1, X2)\<close>, the matrix of \<open>k(x - x')\<close> for \<open>x\<close> in
  \<open>X1\<close> (rows) and \<open>x'\<close> in \<open>X2\<close> (columns).
\<close>

definition sm_kernel :: "vec \<Rightarrow> vec \<Rightarrow> vec \<Rightarrow> real \<Rightarrow> real" where
  "sm_kernel w mu v tau =
     (\<Sum>(w_q, mu_q, v_q) \<leftarrow> zip w (zip mu v).
        w_q * exp (- 2 * pi\<^sup>2 * tau\<^sup>2 * v_q) * cos (2 * pi * tau * mu_q))"

definition covariance :: "vec \<Rightarrow> vec \<Rightarrow> vec \<Rightarrow> vec \<Rightarrow> vec \<Rightarrow> mat" where
  "covariance w mu v X1 X2 = map (\<lambda>x. map (\<lambda>x'. sm_kernel w mu v (x - x')) X2) X1"

text \<open>
  Modelled from the spec: the constant mean of section 4.3, \<open>mean(X)\<close>, a vector as
  long as \<open>X\<close> with every entry \<open>c\<close>.
\<close>

definition constant_mean :: "real \<Rightarrow> vec \<Rightarrow> vec" where
  "constant_mean c X = map (\<lambda>_. c) X"

text \<open>
  Modelled from the spec: the noise model of section 4.4, \<open>observe(K) = K + \<sigma>\<^sup>2 I\<close>.
\<close>

definition add_diag :: "mat \<Rightarrow> real \<Rightarrow> mat" where
  "add_diag K d = map (\<lambda>i. (K ! i)[i := K ! i ! i + d]) [0..<length K]"

definition observe :: "real \<Rightarrow> mat \<Rightarrow> mat" where
  "observe sigma2 K = add_diag K sigma2"

section \<open>The model class (cell 4)\<close>

text \<open>
  \<^verbatim>\<open>
  def forward(self,x):
      mean_x = self.mean_module(x)
      covar_x = self.covar_module(x)
      return GaussianRandomVariable(mean_x, covar_x)
  \<close>
\<close>

record GaussianRandomVariable =
  rv_mean :: vec
  rv_covar :: mat

definition mean_module :: "gp_params \<Rightarrow> vec \<Rightarrow> vec" where
  "mean_module p x = constant_mean (mean_constant p) x"

definition covar_module :: "gp_params \<Rightarrow> vec \<Rightarrow> mat" where
  "covar_module p x =
     covariance (mixture_weights p) (mixture_frequencies p) (mixture_variances p) x x"

definition forward :: "gp_params \<Rightarrow> vec \<Rightarrow> GaussianRandomVariable" where
  "forward p x =
     (let mean_x = mean_module p x;
          covar_x = covar_module p x
      in \<lparr>rv_mean = mean_x, rv_covar = covar_x\<rparr>)"

section \<open>Collaborators\<close>

text \<open>
  The cells call into the numerical library and into classes of the package that are
  not among the sources. What the training loop and the prediction call is a parameter
  of the model:
  \<^item> \<open>mll p output y\<close> is \<^verbatim>\<open>mll(output, train_y)\<close> at the parameters \<open>p\<close>: the log
    marginal likelihood of the targets \<open>y\<close>, or the error that the call raises;
  \<^item> \<open>posterior p x y xs\<close> is \<^verbatim>\<open>model(xs)\<close> in evaluation mode, for the model built
    with the training data \<open>x\<close>, \<open>y\<close>: the distribution at the points \<open>xs\<close>, or the
    error that the call raises;
  \<^item> \<open>backward p x y\<close> is the gradient of the loss at the parameters \<open>p\<close>, one entry
    for each entry of \<open>p\<close>;
  \<^item> \<open>adam_update lr s p g\<close> is one Adam step at learning rate \<open>lr\<close> from the moment
    estimates \<open>s\<close>, the parameters \<open>p\<close> and the gradient \<open>g\<close>; \<open>adam_init\<close> are the
    moment estimates of a new optimizer.
\<close>

record 'o collaborators =
  mll :: "gp_params \<Rightarrow> GaussianRandomVariable \<Rightarrow> vec \<Rightarrow> error + real"
  posterior :: "gp_params \<Rightarrow> vec \<Rightarrow> vec \<Rightarrow> vec \<Rightarrow> error + GaussianRandomVariable"
  backward :: "gp_params \<Rightarrow> vec \<Rightarrow> vec \<Rightarrow> gp_params"
  adam_init :: 'o
  adam_update :: "real \<Rightarrow> 'o \<Rightarrow> gp_params \<Rightarrow> gp_params \<Rightarrow> 'o \<times> gp_params"

section \<open>Marginal likelihood and posterior of the specification\<close>

text \<open>
  The linear algebra that section 4.5 relies on:
  \<^item> \<open>cholesky K\<close> is the factor of \<open>K\<close>, or \<open>None\<close> where \<open>K\<close> is not positive
    definite;
  \<^item> \<open>cholesky_solve L b\<close> solves \<open>K z = b\<close> from the factor \<open>L\<close> of \<open>K\<close>;
  \<^item> \<open>gaussian_log_density L m y\<close> is the log density of \<open>y\<close> under the Gaussian with
    mean \<open>m\<close> and the covariance whose factor is \<open>L\<close>;
  \<^item> \<open>jitter_schedule\<close> lists the increasing jitters of the retry, whose values the
    specification leaves open.
\<close>

record linalg =
  cholesky :: "mat \<Rightarrow> mat option"
  cholesky_solve :: "mat \<Rightarrow> vec \<Rightarrow> vec"
  gaussian_log_density :: "mat \<Rightarrow> vec \<Rightarrow> vec \<Rightarrow> real"
  jitter_schedule :: "real list"

text \<open>
  Modelled from the spec: the factorization of section 4.5, which is not among the
  sources. The matrix is factored as it is; when that fails, the jitters of the
  schedule are added to its diagonal in turn until a factorization succeeds, and the
  error \<open>NumericalInstability\<close> is reported once the schedule is used up.
\<close>

fun jitter_retry :: "(mat \<Rightarrow> mat option) \<Rightarrow> mat \<Rightarrow> real list \<Rightarrow> error + mat" where
  "jitter_retry chol K [] = Inl NumericalInstability"
| "jitter_retry chol K (j # js) =
     (case chol (add_diag K j) of
        Some L \<Rightarrow> Inr L
      | None \<Rightarrow> jitter_retry chol K js)"

definition factorize :: "linalg \<Rightarrow> mat \<Rightarrow> error + mat" where
  "factorize A K =
     (case cholesky A K of
        Some L \<Rightarrow> Inr L
      | None \<Rightarrow> jitter_retry (cholesky A) K (jitter_schedule A))"

text \<open>
  Modelled from the spec: \<open>log_marginal_likelihood\<close> of section 4.5, which is not
  among the sources: the log density of the targets under \<open>N(mean, K + \<sigma>\<^sup>2 I)\<close>, with
  the mean and \<open>K\<close> taken from the distribution that the model returns.
\<close>

definition exact_mll ::
  "linalg \<Rightarrow> gp_params \<Rightarrow> GaussianRandomVariable \<Rightarrow> vec \<Rightarrow> error + real" where
  "exact_mll A p output y =
     (case factorize A (observe (noise_variance p) (rv_covar output)) of
        Inl e \<Rightarrow> Inl e
      | Inr L \<Rightarrow> Inr (gaussian_log_density A L (rv_mean output) y))"

text \<open>The matrix that is factored, \<open>K_noisy = K(X, X) + \<sigma>\<^sup>2 I\<close>.\<close>

definition K_noisy :: "gp_params \<Rightarrow> vec \<Rightarrow> mat" where
  "K_noisy p X = observe (noise_variance p) (covar_module p X)"

definition mat_vec :: "mat \<Rightarrow> vec \<Rightarrow> vec" where
  "mat_vec M v = map (\<lambda>r. dot r v) M"

definition mat_sub :: "mat \<Rightarrow> mat \<Rightarrow> mat" where
  "mat_sub M N = map2 (map2 (-)) M N"

definition columns :: "mat \<Rightarrow> vec list" where
  "columns M = transpose M"

definition mat_mul_columns :: "mat \<Rightarrow> vec list \<Rightarrow> mat" where
  "mat_mul_columns M cs = map (\<lambda>r. map (\<lambda>c. dot r c) cs) M"

text \<open>
  Modelled from the spec: \<open>posterior_predictive\<close> of section 4.5, which is not among
  the sources: \<open>\<mu>* = m(X*) + K(X*, X) K_noisy\<^sup>-\<^sup>1 (y - m(X))\<close> and
  \<open>\<Sigma>* = K(X*, X*) - K(X*, X) K_noisy\<^sup>-\<^sup>1 K(X, X*)\<close>, by solves with the factor of
  \<open>K_noisy\<close>: one solve for the vector, and one for each column of \<open>K(X, X*)\<close>, the
  product with \<open>K(X*, X)\<close> being taken from the solved columns.
\<close>

definition posterior_predictive ::
  "linalg \<Rightarrow> gp_params \<Rightarrow> vec \<Rightarrow> vec \<Rightarrow> vec \<Rightarrow> error + GaussianRandomVariable" where
  "posterior_predictive A p X y Xs =
     (let k = covariance (mixture_weights p) (mixture_frequencies p) (mixture_variances p);
          m = constant_mean (mean_constant p)
      in case factorize A (observe (noise_variance p) (k X X)) of
           Inl e \<Rightarrow> Inl e
         | Inr L \<Rightarrow>
             Inr \<lparr>rv_mean = map2 (+) (m Xs)
                               (mat_vec (k Xs X) (cholesky_solve A L (map2 (-) y (m X)))),
                  rv_covar = mat_sub (k Xs Xs)
                               (mat_mul_columns (k Xs X)
                                  (map (cholesky_solve A L) (columns (k X Xs))))\<rparr>)"

section \<open>Training (cell 5)\<close>

text \<open>
  \<^verbatim>\<open>
  optimizer = torch.optim.Adam([
      {'params': model.parameters()},  # Includes GaussianLikelihood parameters
  ], lr=0.1)
  mll = gpytorch.mlls.ExactMarginalLogLikelihood(likelihood, model)

  training_iter = 50
  for i in range(training_iter):
      optimizer.zero_grad()
      output = model(train_x)
      loss = -mll(output, train_y)
      loss.backward()
      print('Iter %d/%d - Loss: %.3f' % (i + 1, training_iter, loss.data[0]))
      optimizer.step()
  \<close>
  The state of the loop: the parameters, their gradient buffers (\<open>None\<close> until the
  first \<open>backward\<close>), the optimizer and the lines printed so far, a line being the
  three numbers that are formatted. In training mode \<^verbatim>\<open>model(train_x)\<close> is
  \<open>forward\<close>. The loop has no \<open>try\<close>: an exception raised by a call ends the run,
  which is the result \<open>Inl\<close>.
\<close>

record 'o Adam =
  lr :: real
  moments :: 'o

record 'o train_state =
  params :: gp_params
  grad :: "gp_params option"
  optimizer :: "'o Adam"
  printed :: "(nat \<times> nat \<times> real) list"

text \<open>
  Gradient buffers as the library keeps them: \<open>zero_grad\<close> overwrites an existing buffer
  with zeros and leaves a missing one missing; \<open>backward\<close> adds the new gradient to an
  existing buffer and creates a missing one; \<open>step\<close> updates from the buffer and skips
  parameters that have none.
\<close>

definition zeros_like :: "gp_params \<Rightarrow> gp_params" where
  "zeros_like g =
     \<lparr>raw_constant = 0,
      raw_weights = map (\<lambda>_. 0) (raw_weights g),
      raw_frequencies = map (\<lambda>_. 0) (raw_frequencies g),
      raw_variances = map (\<lambda>_. 0) (raw_variances g),
      raw_log_noise = 0\<rparr>"

definition add_params :: "gp_params \<Rightarrow> gp_params \<Rightarrow> gp_params" where
  "add_params a g =
     \<lparr>raw_constant = raw_constant a + raw_constant g,
      raw_weights = map2 (+) (raw_weights a) (raw_weights g),
      raw_frequencies = map2 (+) (raw_frequencies a) (raw_frequencies g),
      raw_variances = map2 (+) (raw_variances a) (raw_variances g),
      raw_log_noise = raw_log_noise a + raw_log_noise g\<rparr>"

definition same_shape :: "gp_params \<Rightarrow> gp_params \<Rightarrow> bool" where
  "same_shape a g \<longleftrightarrow>
     length (raw_weights a) = length (raw_weights g) \<and>
     length (raw_frequencies a) = length (raw_frequencies g) \<and>
     length (raw_variances a) = length (raw_variances g)"

definition zero_grad :: "gp_params option \<Rightarrow> gp_params option" where
  "zero_grad buf = map_option zeros_like buf"

definition accumulate :: "gp_params option \<Rightarrow> gp_params \<Rightarrow> gp_params option" where
  "accumulate buf g = (case buf of None \<Rightarrow> Some g | Some a \<Rightarrow> Some (add_params a g))"

definition step ::
  "'o collaborators \<Rightarrow> 'o Adam \<Rightarrow> gp_params \<Rightarrow> gp_params option \<Rightarrow> 'o Adam \<times> gp_params" where
  "step E opt p buf =
     (case buf of
        None \<Rightarrow> (opt, p)
      | Some g \<Rightarrow>
          (let (s', p') = adam_update E (lr opt) (moments opt) p g
           in (opt\<lparr>moments := s'\<rparr>, p')))"

definition train_iteration ::
  "'o collaborators \<Rightarrow> vec \<Rightarrow> vec \<Rightarrow> nat \<Rightarrow> nat \<Rightarrow> 'o train_state \<Rightarrow> error + 'o train_state" where
  "train_iteration E x y training_iter i st =
     (let zeroed = zero_grad (grad st);
          output = forward (params st) x
      in case mll E (params st) output y of
           Inl e \<Rightarrow> Inl e
         | Inr l \<Rightarrow>
             (let loss = - l;
                  buf = accumulate zeroed (backward E (params st) x y);
                  out = printed st @ [(i + 1, training_iter, loss)];
                  (opt', p') = step E (optimizer st) (params st) buf
              in Inr \<lparr>params = p', grad = buf, optimizer = opt', printed = out\<rparr>))"

fun train_loop ::
  "'o collaborators \<Rightarrow> vec \<Rightarrow> vec \<Rightarrow> nat \<Rightarrow> nat list \<Rightarrow> 'o train_state \<Rightarrow> error + 'o train_state" where
  "train_loop E x y training_iter [] st = Inr st"
| "train_loop E x y training_iter (i # is) st =
     (case train_iteration E x y training_iter i st of
        Inl e \<Rightarrow> Inl e
      | Inr st' \<Rightarrow> train_loop E x y training_iter is st')"

definition fit ::
  "'o collaborators \<Rightarrow> vec \<Rightarrow> vec \<Rightarrow> gp_params \<Rightarrow> error + 'o train_state" where
  "fit E x y p =
     (let optimizer = \<lparr>lr = 0.1, moments = adam_init E\<rparr>;
          training_iter = 50
      in train_loop E x y training_iter [0..<training_iter]
           \<lparr>params = p, grad = None, optimizer = optimizer, printed = []\<rparr>)"

text \<open>
  The specification's reading of the loop, section 4.6: from the parameters and moment
  estimates after \<open>k\<close> iterations, iteration \<open>k + 1\<close> takes the gradient of the loss there
  and applies one Adam step at learning rate 0.1; the loss it records is the negated
  log marginal likelihood at the parameters it started from.
\<close>

fun adam_trajectory ::
  "'o collaborators \<Rightarrow> vec \<Rightarrow> vec \<Rightarrow> 'o \<times> gp_params \<Rightarrow> nat \<Rightarrow> 'o \<times> gp_params" where
  "adam_trajectory E x y s 0 = s"
| "adam_trajectory E x y s (Suc k) =
     (let (m, p) = adam_trajectory E x y s k
      in adam_update E 0.1 m p (backward E p x y))"

definition log_marginal_likelihood ::
  "'o collaborators \<Rightarrow> gp_params \<Rightarrow> vec \<Rightarrow> vec \<Rightarrow> error + real" where
  "log_marginal_likelihood E p X y = mll E p (forward p X) y"

section \<open>Prediction (cell 6)\<close>

text \<open>
  \<^verbatim>\<open>
  test_x = Variable(torch.linspace(0, 5, 51))
  observed_pred = likelihood(model(test_x))
  ...
  lower, upper = rand_var.confidence_region()
  \<close>
  In evaluation mode the model answers with the posterior at the test points, from the
  training data it was built with; the likelihood is then called on that distribution,
  and the band is taken from the result.
\<close>

definition test_x :: vec where
  "test_x = linspace 0 5 51"

text \<open>
  Modelled from the spec: \<^verbatim>\<open>GaussianLikelihood\<close> and \<^verbatim>\<open>confidence_region\<close>
  are not among the sources. The call of the likelihood on a distribution is the
  operation \<open>observe\<close> of section 4.4 on its covariance, and \<open>confidence_region\<close> is the
  band of section 4.7, the mean minus and plus twice the square root of the variances,
  which are the diagonal of the covariance.
\<close>

definition likelihood :: "gp_params \<Rightarrow> GaussianRandomVariable \<Rightarrow> GaussianRandomVariable" where
  "likelihood p rv = rv\<lparr>rv_covar := observe (noise_variance p) (rv_covar rv)\<rparr>"

definition var :: "GaussianRandomVariable \<Rightarrow> vec" where
  "var rv = map (\<lambda>i. rv_covar rv ! i ! i) [0..<length (rv_covar rv)]"

definition confidence_region :: "GaussianRandomVariable \<Rightarrow> vec \<times> vec" where
  "confidence_region rv =
     (let std2 = map (\<lambda>v. 2 * sqrt v) (var rv)
      in (map2 (-) (rv_mean rv) std2, map2 (+) (rv_mean rv) std2))"

definition observed_pred ::
  "'o collaborators \<Rightarrow> gp_params \<Rightarrow> vec \<Rightarrow> vec \<Rightarrow> error + GaussianRandomVariable" where
  "observed_pred E p x y =
     (case posterior E p x y test_x of
        Inl e \<Rightarrow> Inl e
      | Inr rv \<Rightarrow> Inr (likelihood p rv))"

section \<open>Instances for running the model\<close>

text \<open>
  A generator that counts upwards, and a linear algebra that is easy to run: every
  matrix is taken as its own factor and the log density is a constant. In the
  collaborators built on it below, every entry of the gradient is one, and the optimizer
  takes a plain gradient step and counts its steps.
\<close>

definition counting_randn :: "nat \<Rightarrow> nat \<Rightarrow> vec \<times> nat" where
  "counting_randn g n = (map real [g..<g + n], g + n)"

text \<open>
  A generator whose state \<open>g\<close> draws the unit vector \<open>g\<close>, and a functional that agrees
  with the expectation under the standard normal law on the functions \<open>exp(t \<cdot> z)\<close> of
  eleven draws \<open>z\<close>: it reads \<open>t\<close> off the values at the unit vectors.
\<close>

definition unit_randn :: "nat \<Rightarrow> nat \<Rightarrow> vec \<times> nat" where
  "unit_randn g n = (map (\<lambda>i. if i = g then 1 else 0) [0..<n], Suc g)"

definition unit_expectation :: "(nat \<Rightarrow> real) \<Rightarrow> real" where
  "unit_expectation f = exp ((\<Sum>i<11. (ln (f i))\<^sup>2) / 2)"

definition example_params :: gp_params where
  "example_params =
     \<lparr>raw_constant = 0, raw_weights = [0, 0, 0], raw_frequencies = [0, 1, 2],
      raw_variances = [0, 0, 0], raw_log_noise = 0\<rparr>"

definition plain_linalg :: linalg where
  "plain_linalg =
     \<lparr>cholesky = (\<lambda>K. Some K),
      cholesky_solve = (\<lambda>L b. b),
      gaussian_log_density = (\<lambda>L m y. - 1),
      jitter_schedule = [1 / 1000, 1 / 100]\<rparr>"

definition failing_linalg :: linalg where
  "failing_linalg = plain_linalg\<lparr>cholesky := (\<lambda>K. None)\<rparr>"

text \<open>
  Exact linear algebra for a single training point: the factor of the matrix \<open>(a)\<close>
  with \<open>a > 0\<close> is \<open>(sqrt a)\<close>, and the solution of \<open>a z = b\<close> is \<open>b / (sqrt a)\<^sup>2\<close>.
  Larger matrices are refused.
\<close>

definition scalar_linalg :: linalg where
  "scalar_linalg =
     plain_linalg
       \<lparr>cholesky := (\<lambda>K.
          if length K = 1 \<and> length (hd K) = 1 \<and> 0 < hd (hd K)
          then Some [[sqrt (hd (hd K))]] else None),
        cholesky_solve := (\<lambda>L b. map (\<lambda>v. v / (hd (hd L))\<^sup>2) b)\<rparr>"

text \<open>
  The collaborators with the likelihood and the posterior of the specification over a
  given linear algebra.
\<close>

definition library :: "linalg \<Rightarrow> nat collaborators" where
  "library A =
     \<lparr>mll = exact_mll A,
      posterior = posterior_predictive A,
      backward = (\<lambda>p x y.
        \<lparr>raw_constant = 1, raw_weights = [1, 1, 1], raw_frequencies = [1, 1, 1],
         raw_variances = [1, 1, 1], raw_log_noise = 1\<rparr>),
      adam_init = 0,
      adam_update = (\<lambda>lr s p g.
        (Suc s,
         \<lparr>raw_constant = raw_constant p - lr * raw_constant g,
          raw_weights = map2 (\<lambda>a b. a - lr * b) (raw_weights p) (raw_weights g),
          raw_frequencies = map2 (\<lambda>a b. a - lr * b) (raw_frequencies p) (raw_frequencies g),
          raw_variances = map2 (\<lambda>a b. a - lr * b) (raw_variances p) (raw_variances g),
          raw_log_noise = raw_log_noise p - lr * raw_log_noise g\<rparr>))\<rparr>"

definition plain_collaborators :: "nat collaborators" where
  "plain_collaborators = library plain_linalg"

definition failing_collaborators :: "nat collaborators" where
  "failing_collaborators = library failing_linalg"

definition scalar_collaborators :: "nat collaborators" where
  "scalar_collaborators = library scalar_linalg"

section \<open>The data generator\<close>

lemma length_linspace: "length (linspace a b n) = n"
  by (simp add: linspace_def)

lemma nth_linspace:
  "i < n \<Longrightarrow> linspace a b n ! i = a + real i * ((b - a) / real (n - 1))"
  by (auto simp: linspace_def)

lemma hd_linspace: "0 < n \<Longrightarrow> hd (linspace a b n) = a"
proof -
  assume n: "0 < n"
  then have "linspace a b n \<noteq> []"
    using length_linspace [of a b n] by auto
  then have "hd (linspace a b n) = linspace a b n ! 0"
    by (simp add: hd_conv_nth)
  then show ?thesis
    using n by (simp add: nth_linspace)
qed

lemma last_linspace: "2 \<le> n \<Longrightarrow> last (linspace a b n) = b"
proof -
  assume n: "2 \<le> n"
  then have "last (linspace a b n) = linspace a b n ! (n - 1)"
    by (simp add: last_conv_nth length_linspace flip: length_0_conv)
  also have "\<dots> = a + real (n - 1) * ((b - a) / real (n - 1))"
    using n by (simp add: nth_linspace)
  also have "\<dots> = b"
    using n by simp
  finally show ?thesis .
qed

lemma length_train_x: "length train_x = 11"
  by (simp add: train_x_def length_linspace)

lemma nth_train_x: "i < 11 \<Longrightarrow> train_x ! i = real i * 0.075"
  by (simp add: train_x_def nth_linspace)

lemma nth_train_y:
  "length z = 11 \<Longrightarrow> i < 11 \<Longrightarrow> train_y z ! i = sin (2 * pi * train_x ! i) + 0.2 * z ! i"
  by (simp add: train_y_def length_train_x mult.commute)

lemma length_train_y: "length z = 11 \<Longrightarrow> length (train_y z) = 11"
  by (simp add: train_y_def length_train_x)

lemma train_y_inj:
  assumes "length z1 = 11" and "length z2 = 11" and "train_y z1 = train_y z2"
  shows "z1 = z2"
proof (rule nth_equalityI)
  show "length z1 = length z2" using assms by simp
next
  fix i assume "i < length z1"
  then have i: "i < 11" using assms by simp
  have "train_y z1 ! i = sin (2 * pi * train_x ! i) + 0.2 * z1 ! i"
    using assms(1) i by (rule nth_train_y)
  moreover have "train_y z2 ! i = sin (2 * pi * train_x ! i) + 0.2 * z2 ! i"
    using assms(2) i by (rule nth_train_y)
  ultimately show "z1 ! i = z2 ! i"
    using assms(3) by simp
qed

lemma dot_sum_nth:
  "length u = length t \<Longrightarrow> dot t u = (\<Sum>i<length t. t ! i * u ! i)"
proof -
  assume l: "length u = length t"
  have "dot t u = sum_list (map (\<lambda>(a, b). a * b) (zip t u))"
    by (simp add: dot_def)
  also have "\<dots> = (\<Sum>i = 0..<length t. map (\<lambda>(a, b). a * b) (zip t u) ! i)"
    using l by (simp add: sum_list_sum_nth)
  also have "\<dots> = (\<Sum>i<length t. t ! i * u ! i)"
    using l by (intro sum.cong) (auto simp: lessThan_atLeast0)
  finally show ?thesis .
qed

lemma dot_scaled:
  "dot t (map (\<lambda>e. e * c) z) = dot (map (\<lambda>e. e * c) t) z"
  by (induction t z rule: list_induct2') (simp_all add: dot_def)

lemma dot_scaled_self:
  "dot (map (\<lambda>e. e * c) t) (map (\<lambda>e. e * c) t) = c\<^sup>2 * dot t t"
  by (induction t) (simp_all add: dot_def power2_eq_square algebra_simps)

lemma generate_data_eq:
  "generate_data randn g =
     ((train_x, train_y (fst (randn g (length train_x)))), snd (randn g (length train_x)))"
  by (simp add: generate_data_def case_prod_unfold Let_def)

lemma noise_scaled:
  assumes "length (fst (randn g (length train_x))) = length train_x"
  shows "noise randn g = map (\<lambda>e. e * 0.2) (fst (randn g (length train_x)))"
proof (rule nth_equalityI)
  show "length (noise randn g) = length (map (\<lambda>e. e * 0.2) (fst (randn g (length train_x))))"
    using assms by (simp add: noise_def generate_data_eq train_y_def)
next
  fix i assume "i < length (noise randn g)"
  then have "i < length train_x"
    by (simp add: noise_def)
  then show "noise randn g ! i = map (\<lambda>e. e * 0.2) (fst (randn g (length train_x))) ! i"
    using assms by (simp add: noise_def generate_data_eq train_y_def)
qed

lemma scaled_gaussians:
  assumes "independent_gaussians E Z n 1" and "\<forall>g. X g = map (\<lambda>e. e * c) (Z g)"
  shows "independent_gaussians E X n (c\<^sup>2)"
proof -
  have len: "\<forall>g. length (X g) = n"
    using assms by (simp add: independent_gaussians_def)
  have "mgf E X t = exp (c\<^sup>2 * dot t t / 2)" if t: "length t = n" for t
  proof -
    have "mgf E X t = mgf E Z (map (\<lambda>e. e * c) t)"
      using assms(2) by (simp add: mgf_def dot_scaled)
    also have "\<dots> = exp (1 * dot (map (\<lambda>e. e * c) t) (map (\<lambda>e. e * c) t) / 2)"
      using assms(1) t by (simp add: independent_gaussians_def)
    finally show ?thesis
      by (simp add: dot_scaled_self)
  qed
  with len show ?thesis
    by (simp add: independent_gaussians_def)
qed

lemma dot_unit:
  assumes "g < length t"
  shows "dot t (map (\<lambda>i. if i = g then 1 else 0) [0..<length t]) = t ! g"
proof -
  have "dot t (map (\<lambda>i. if i = g then 1 else 0) [0..<length t]) =
        (\<Sum>i<length t. t ! i * (if i = g then 1 else 0))"
    by (subst dot_sum_nth) (auto intro: sum.cong)
  also have "\<dots> = (\<Sum>i<length t. if i = g then t ! i else 0)"
    by (intro sum.cong) auto
  also have "\<dots> = t ! g"
    using assms by simp
  finally show ?thesis .
qed

lemma unit_randn_standard:
  "independent_gaussians unit_expectation (\<lambda>g. fst (unit_randn g 11)) 11 1"
proof -
  have "mgf unit_expectation (\<lambda>g. fst (unit_randn g 11)) t = exp (1 * dot t t / 2)"
    if t: "length t = 11" for t
  proof -
    have "(\<Sum>i<11. (ln (exp (dot t (fst (unit_randn i 11)))))\<^sup>2) = (\<Sum>i<11. (t ! i)\<^sup>2)"
      using t dot_unit [of _ t] by (intro sum.cong) (auto simp: unit_randn_def)
    also have "\<dots> = dot t t"
      using t by (simp add: dot_sum_nth power2_eq_square)
    finally show ?thesis
      by (simp add: mgf_def unit_expectation_def)
  qed
  then show ?thesis
    by (simp add: independent_gaussians_def unit_randn_def)
qed

text \<open>
  Claim C7, as amended. Cell 2 produces eleven inputs, the first 0, the last 0.75 and
  input \<open>i\<close> equal to \<open>0.075 i\<close> (evenly spaced, both ends included), and eleven
  targets, target \<open>i\<close> being \<open>sin(2\<pi>x\<^sub>i)\<close> plus the noise \<open>\<epsilon>\<^sub>i\<close>. Where the draws of
  \<open>randn\<close> are independent standard normal variables of the random generator state,
  the eleven \<open>\<epsilon>\<^sub>i\<close> are independent Gaussian variables of mean zero and variance 0.04.
  Beyond the two sequences, cell 2 leaves the generator in the state in which \<open>randn\<close>
  leaves it, and nothing else; inputs, targets and that state are a function of the
  generator state it starts from, hence the same for the same state.
\<close>

theorem data_generator_contract:
  assumes "independent_gaussians E (\<lambda>g. fst (randn g (length train_x))) (length train_x) 1"
  shows "generate_data randn g =
           ((train_x, train_y (fst (randn g (length train_x)))), snd (randn g (length train_x))) \<and>
         length train_x = 11 \<and> hd train_x = 0 \<and> last train_x = 0.75 \<and>
         (\<forall>i<11. train_x ! i = real i * 0.075) \<and>
         length (snd (fst (generate_data randn g))) = 11 \<and>
         (\<forall>i<11. snd (fst (generate_data randn g)) ! i =
                   sin (2 * pi * train_x ! i) + noise randn g ! i) \<and>
         independent_gaussians E (noise randn) 11 0.04"
proof -
  have len: "length (fst (randn g (length train_x))) = 11" for g
    using assms by (simp add: independent_gaussians_def length_train_x)
  have n: "noise randn g = map (\<lambda>e. e * 0.2) (fst (randn g (length train_x)))" for g
    using len by (intro noise_scaled) (simp add: length_train_x)
  have "independent_gaussians E (noise randn) (length train_x) ((0.2)\<^sup>2)"
    using assms n by (intro scaled_gaussians) auto
  then have law: "independent_gaussians E (noise randn) 11 0.04"
    by (simp add: length_train_x power2_eq_square)
  have ends: "hd train_x = 0" "last train_x = 0.75"
    by (simp_all add: train_x_def hd_linspace last_linspace)
  have y: "\<forall>i<11. snd (fst (generate_data randn g)) ! i =
                   sin (2 * pi * train_x ! i) + noise randn g ! i"
    using len by (simp add: generate_data_eq n nth_train_y mult.commute)
  show ?thesis
    using law ends y len
    by (simp add: generate_data_eq length_train_x nth_train_x length_train_y)
qed

theorem data_generator_contract_witness:
  "independent_gaussians unit_expectation (\<lambda>g. fst (unit_randn g (length train_x))) (length train_x) 1 \<and>
   generate_data unit_randn 3 =
     ((train_x, train_y (map (\<lambda>i. if i = 3 then 1 else 0) [0..<11])), 4) \<and>
   hd train_x = 0 \<and> last train_x = 0.75 \<and>
   independent_gaussians unit_expectation (noise unit_randn) 11 0.04"
proof -
  have h: "independent_gaussians unit_expectation (\<lambda>g. fst (unit_randn g (length train_x)))
             (length train_x) 1"
    by (simp add: length_train_x unit_randn_standard)
  note c = data_generator_contract [of unit_expectation unit_randn 3, OF h]
  have gd: "generate_data unit_randn 3 =
     ((train_x, train_y (map (\<lambda>i. if i = 3 then 1 else 0) [0..<11])), 4)"
    using c [THEN conjunct1] by (simp add: unit_randn_def length_train_x)
  have law: "independent_gaussians unit_expectation (noise unit_randn) 11 0.04"
    using c by blast
  have ends: "hd train_x = 0 \<and> last train_x = 0.75"
    using c by blast
  show ?thesis
    using h gd law ends by blast
qed

lemma unchanged_state_repeats_draws:
  "snd (randn g n) = g \<Longrightarrow> randn (snd (randn g n)) n = randn g n"
  by simp

text \<open>
  Claim C7 as it is written has cell 2 do nothing beyond returning the two sequences.
  It also advances the generator: started in state 0 of the counting generator, it
  leaves state 11. A generator that a call leaves unchanged returns the same draws at
  the next call.
\<close>

theorem generator_state_advances:
  "snd (generate_data counting_randn 0) \<noteq> 0"
  by (simp add: generate_data_eq counting_randn_def length_train_x)

text \<open>
  Claim C10. The notebook never seeds the generator, so the generator state that cell 2
  starts from is an input of the run and not a constant of the program. Two runs whose
  generator states give different draws have the same training inputs and different
  training targets: equal outputs of two runs are not guaranteed.
\<close>

theorem unseeded_runs_differ:
  assumes "randn g1 (length train_x) = (z1, h1)" and "randn g2 (length train_x) = (z2, h2)"
    and "length z1 = length train_x" and "length z2 = length train_x" and "z1 \<noteq> z2"
  shows "snd (fst (generate_data randn g1)) \<noteq> snd (fst (generate_data randn g2)) \<and>
         fst (fst (generate_data randn g1)) = fst (fst (generate_data randn g2))"
proof -
  have "train_y z1 \<noteq> train_y z2"
    using assms(3-5) train_y_inj [of z1 z2] by (auto simp: length_train_x)
  then show ?thesis
    using assms(1,2) by (simp add: generate_data_def)
qed

theorem unseeded_runs_differ_witness:
  "snd (fst (generate_data counting_randn 0)) \<noteq> snd (fst (generate_data counting_randn 1)) \<and>
   fst (fst (generate_data counting_randn 0)) = fst (fst (generate_data counting_randn 1))"
proof -
  have r0: "counting_randn 0 (length train_x) = (map real [0..<11], 11)"
    by (simp add: counting_randn_def length_train_x)
  have r1: "counting_randn 1 (length train_x) = (map real [1..<12], 12)"
    by (simp add: counting_randn_def length_train_x)
  have l0: "length (map real [0..<11]) = length train_x"
    by (simp add: length_train_x)
  have l1: "length (map real [1..<12]) = length train_x"
    by (simp add: length_train_x)
  have ne: "map real [0..<11] \<noteq> map real [1..<12]"
    by (simp add: upt_rec)
  show ?thesis
    using r0 r1 l0 l1 ne
      unseeded_runs_differ [of counting_randn 0 "map real [0..<11]" 11 1 "map real [1..<12]" 12]
    by blast
qed

section \<open>The kernel\<close>

lemma sm_kernel_zero_aux:
  "length w = length mu \<Longrightarrow> length mu = length v \<Longrightarrow> sm_kernel w mu v 0 = sum_list w"
proof (induction w mu v rule: list_induct3)
  case Nil
  show ?case by (simp add: sm_kernel_def)
next
  case (Cons a w b mu c v)
  then show ?case by (simp add: sm_kernel_def)
qed

lemma sm_kernel_zero:
  "length mu = length w \<Longrightarrow> length v = length w \<Longrightarrow> sm_kernel w mu v 0 = sum_list w"
  by (rule sm_kernel_zero_aux) simp_all

lemma sum_list_pos_real:
  fixes w :: "real list"
  shows "w \<noteq> [] \<Longrightarrow> \<forall>a\<in>set w. 0 < a \<Longrightarrow> 0 < sum_list w"
  by (induction w) (auto intro: add_pos_nonneg sum_list_nonneg less_imp_le)

lemma sm_kernel_even: "sm_kernel w mu v (- tau) = sm_kernel w mu v tau"
  by (simp add: sm_kernel_def)

lemma nth_covariance:
  "i < length X1 \<Longrightarrow> j < length X2 \<Longrightarrow>
   covariance w mu v X1 X2 ! i ! j = sm_kernel w mu v (X1 ! i - X2 ! j)"
  by (simp add: covariance_def)

text \<open>
  Claim C4. For \<open>Q\<close> weights, frequencies and variances, \<open>Q\<close> at least one, with every
  weight positive, the spectral mixture kernel at \<open>\<tau> = 0\<close>, that is at \<open>x = x'\<close>, is the
  sum of the weights, and that value is strictly positive. Neither the frequencies nor
  the variances matter at \<open>\<tau> = 0\<close>.
\<close>

theorem sm_kernel_at_zero:
  assumes "length mu = length w" and "length v = length w"
    and "0 < length w" and "\<forall>q<length w. 0 < w ! q"
  shows "sm_kernel w mu v (x - x) = sum_list w \<and> 0 < sm_kernel w mu v (x - x)"
proof -
  have eq: "sm_kernel w mu v (x - x) = sum_list w"
    using assms(1,2) by (simp add: sm_kernel_zero)
  have "\<forall>a\<in>set w. 0 < a"
    using assms(4) by (auto simp: in_set_conv_nth)
  then have "0 < sum_list w"
    using assms(3) by (intro sum_list_pos_real) auto
  with eq show ?thesis by simp
qed

theorem sm_kernel_at_zero_witness:
  "length [0, 1, 2 :: real] = length [1, 2, 3 :: real] \<and>
   length [1, 1, 1 :: real] = length [1, 2, 3 :: real] \<and>
   0 < length [1, 2, 3 :: real] \<and> list_all (\<lambda>a. 0 < a) [1, 2, 3 :: real] \<and>
   sm_kernel [1, 2, 3] [0, 1, 2] [1, 1, 1] (0.3 - 0.3) = 6 \<and>
   0 < sm_kernel [1, 2, 3] [0, 1, 2] [1, 1, 1] (0.3 - 0.3)"
proof -
  have pos: "\<forall>q<length [1, 2, 3 :: real]. 0 < [1, 2, 3 :: real] ! q"
    by (simp add: nth_Cons')
  show ?thesis
    using pos sm_kernel_at_zero [of "[0, 1, 2]" "[1, 2, 3]" "[1, 1, 1]" "0.3"]
    by simp
qed

lemma clip_within: "fst b \<le> snd b \<Longrightarrow> fst b \<le> clip b r \<and> clip b r \<le> snd b"
  by (auto simp: clip_def)

lemma reparameterized_positive:
  "list_all (\<lambda>w. 0 < w) (mixture_weights p) \<and> list_all (\<lambda>m. 0 < m) (mixture_frequencies p) \<and>
   list_all (\<lambda>v. 0 < v) (mixture_variances p) \<and> 0 < noise_variance p"
  by (simp add: list_all_iff mixture_weights_def mixture_frequencies_def mixture_variances_def
      noise_variance_def)

lemma notebook_bounds_accepted:
  "check_bounds constant_bounds = Inr (- 1, 1) \<and> check_bounds log_noise_bounds = Inr (- 5, 5)"
  by (simp add: check_bounds_def constant_bounds_def log_noise_bounds_def)

lemma covar_module_diagonal:
  assumes "has_n_mixtures p" and "i < length x"
  shows "covar_module p x ! i ! i = sum_list (mixture_weights p) \<and> 0 < covar_module p x ! i ! i"
proof -
  have len: "length (mixture_frequencies p) = length (mixture_weights p)"
    "length (mixture_variances p) = length (mixture_weights p)" "mixture_weights p \<noteq> []"
    using assms(1)
    by (auto simp: has_n_mixtures_def n_mixtures_def mixture_weights_def mixture_frequencies_def
        mixture_variances_def)
  have "\<forall>a\<in>set (mixture_weights p). 0 < a"
    by (auto simp: mixture_weights_def)
  then have "0 < sum_list (mixture_weights p)"
    using len(3) by (intro sum_list_pos_real) auto
  then show ?thesis
    using assms(2) len by (simp add: covar_module_def nth_covariance sm_kernel_zero)
qed

text \<open>
  Claim C5. For every sequence of inputs \<open>X\<close> and all kernel parameters, the matrix
  \<open>K(X, X)\<close> is symmetric: its entry at row \<open>i\<close> and column \<open>j\<close> equals its entry at row
  \<open>j\<close> and column \<open>i\<close>, for all indices \<open>i\<close> and \<open>j\<close> of \<open>X\<close>. So is the matrix that
  \<open>covar_module\<close> returns in \<open>forward\<close>, at all parameters of the model.
\<close>

theorem covariance_symmetric:
  assumes "i < length X" and "j < length X"
  shows "covariance w mu v X X ! i ! j = covariance w mu v X X ! j ! i \<and>
         covar_module p X ! i ! j = covar_module p X ! j ! i"
proof -
  have "sm_kernel w' mu' v' (X ! i - X ! j) = sm_kernel w' mu' v' (X ! j - X ! i)" for w' mu' v'
  proof -
    have "sm_kernel w' mu' v' (X ! i - X ! j) = sm_kernel w' mu' v' (- (X ! j - X ! i))"
      by simp
    also have "\<dots> = sm_kernel w' mu' v' (X ! j - X ! i)"
      by (rule sm_kernel_even)
    finally show ?thesis .
  qed
  then show ?thesis
    using assms by (simp add: covar_module_def nth_covariance)
qed

theorem covariance_symmetric_witness:
  "(0::nat) < length [0, 0.075 :: real] \<and> (1::nat) < length [0, 0.075 :: real] \<and>
   covariance [1, 2, 3] [1, 2, 3] [1, 2, 3] [0, 0.075] [0, 0.075] ! 0 ! 1 =
   covariance [1, 2, 3] [1, 2, 3] [1, 2, 3] [0, 0.075] [0, 0.075] ! 1 ! 0 \<and>
   covar_module example_params [0, 0.075] ! 0 ! 1 = covar_module example_params [0, 0.075] ! 1 ! 0"
  using covariance_symmetric [of 0 "[0, 0.075]" 1 "[1, 2, 3]" "[1, 2, 3]" "[1, 2, 3]" example_params]
  by simp

section \<open>The training loop\<close>

lemma train_loop_append:
  "train_loop E x y n (is @ js) st =
     (case train_loop E x y n is st of Inl e \<Rightarrow> Inl e | Inr st' \<Rightarrow> train_loop E x y n js st')"
  by (induction "is" arbitrary: st) (auto split: sum.splits)

lemma map2_add_zeros:
  fixes ys :: "real list"
  shows "length xs = length ys \<Longrightarrow> map2 (+) (map (\<lambda>_. 0) xs) ys = ys"
  by (induction xs ys rule: list_induct2) auto

lemma add_zeros_like: "same_shape a g \<Longrightarrow> add_params (zeros_like a) g = g"
  by (simp add: same_shape_def add_params_def zeros_like_def map2_add_zeros)

lemma accumulate_zero_grad:
  "\<forall>a. buf = Some a \<longrightarrow> same_shape a g \<Longrightarrow> accumulate (zero_grad buf) g = Some g"
  by (cases buf) (simp_all add: accumulate_def zero_grad_def add_zeros_like)

lemma train_iteration_Inl:
  "log_marginal_likelihood E (params st) x y = Inl e \<Longrightarrow> train_iteration E x y n i st = Inl e"
  by (simp add: train_iteration_def log_marginal_likelihood_def)

lemma train_iteration_Inr:
  assumes "log_marginal_likelihood E (params st) x y = Inr l"
    and "\<forall>a. grad st = Some a \<longrightarrow> same_shape a (backward E (params st) x y)"
  shows "train_iteration E x y n i st =
     Inr \<lparr>params = snd (adam_update E (lr (optimizer st)) (moments (optimizer st)) (params st)
                          (backward E (params st) x y)),
          grad = Some (backward E (params st) x y),
          optimizer = (optimizer st)\<lparr>moments :=
                        fst (adam_update E (lr (optimizer st)) (moments (optimizer st)) (params st)
                          (backward E (params st) x y))\<rparr>,
          printed = printed st @ [(i + 1, n, - l)]\<rparr>"
  using assms
  by (simp add: train_iteration_def log_marginal_likelihood_def accumulate_zero_grad step_def
      split: prod.splits)

lemma train_loop_prefix:
  assumes shaped: "\<forall>p q. same_shape (backward E p x y) (backward E q x y)"
    and ok: "\<forall>j<k. log_marginal_likelihood E (snd (adam_trajectory E x y (m0, p0) j)) x y = Inr (l j)"
  shows "train_loop E x y n [i..<i + k]
           \<lparr>params = p0, grad = None, optimizer = \<lparr>lr = 0.1, moments = m0\<rparr>, printed = out\<rparr> =
         Inr \<lparr>params = snd (adam_trajectory E x y (m0, p0) k),
              grad = (if k = 0 then None
                      else Some (backward E (snd (adam_trajectory E x y (m0, p0) (k - 1))) x y)),
              optimizer = \<lparr>lr = 0.1, moments = fst (adam_trajectory E x y (m0, p0) k)\<rparr>,
              printed = out @ map (\<lambda>j. (i + j + 1, n, - l j)) [0..<k]\<rparr>"
  using ok
proof (induction k)
  case 0
  show ?case by simp
next
  case (Suc k)
  let ?st = "\<lparr>params = snd (adam_trajectory E x y (m0, p0) k),
              grad = (if k = 0 then None
                      else Some (backward E (snd (adam_trajectory E x y (m0, p0) (k - 1))) x y)),
              optimizer = \<lparr>lr = 0.1, moments = fst (adam_trajectory E x y (m0, p0) k)\<rparr>,
              printed = out @ map (\<lambda>j. (i + j + 1, n, - l j)) [0..<k]\<rparr>"
  have prefix: "train_loop E x y n [i..<i + k]
           \<lparr>params = p0, grad = None, optimizer = \<lparr>lr = 0.1, moments = m0\<rparr>, printed = out\<rparr> = Inr ?st"
    using Suc by simp
  have l: "log_marginal_likelihood E (params ?st) x y = Inr (l k)"
    using Suc.prems by simp
  have sh: "\<forall>a. grad ?st = Some a \<longrightarrow> same_shape a (backward E (params ?st) x y)"
    using shaped by simp
  have "train_loop E x y n [i..<i + Suc k]
           \<lparr>params = p0, grad = None, optimizer = \<lparr>lr = 0.1, moments = m0\<rparr>, printed = out\<rparr> =
        train_iteration E x y n (i + k) ?st"
    using prefix by (simp add: train_loop_append split: sum.splits)
  also have "\<dots> = Inr \<lparr>params = snd (adam_trajectory E x y (m0, p0) (Suc k)),
              grad = Some (backward E (snd (adam_trajectory E x y (m0, p0) k)) x y),
              optimizer = \<lparr>lr = 0.1, moments = fst (adam_trajectory E x y (m0, p0) (Suc k))\<rparr>,
              printed = out @ map (\<lambda>j. (i + j + 1, n, - l j)) [0..<Suc k]\<rparr>"
    unfolding train_iteration_Inr [OF l sh]
    by (simp add: case_prod_unfold Let_def)
  finally show ?case by simp
qed

lemma train_loop_first_failure:
  assumes shaped: "\<forall>p q. same_shape (backward E p x y) (backward E q x y)"
    and ok: "\<forall>j<k. log_marginal_likelihood E (snd (adam_trajectory E x y (m0, p0) j)) x y = Inr (l j)"
    and fail: "log_marginal_likelihood E (snd (adam_trajectory E x y (m0, p0) k)) x y = Inl e"
  shows "train_loop E x y n ([i..<i + k] @ (i + k) # js)
           \<lparr>params = p0, grad = None, optimizer = \<lparr>lr = 0.1, moments = m0\<rparr>, printed = out\<rparr> = Inl e"
  using fail
  by (simp add: train_loop_append train_loop_prefix [OF shaped ok] train_iteration_Inl)

lemma fit_success:
  assumes shaped: "\<forall>p q. same_shape (backward E p x y) (backward E q x y)"
    and ok: "\<forall>k<50. log_marginal_likelihood E (snd (adam_trajectory E x y (adam_init E, p) k)) x y = Inr (l k)"
  shows "fit E x y p =
         Inr \<lparr>params = snd (adam_trajectory E x y (adam_init E, p) 50),
              grad = Some (backward E (snd (adam_trajectory E x y (adam_init E, p) 49)) x y),
              optimizer = \<lparr>lr = 0.1, moments = fst (adam_trajectory E x y (adam_init E, p) 50)\<rparr>,
              printed = map (\<lambda>k. (k + 1, 50, - l k)) [0..<50]\<rparr>"
  using train_loop_prefix [OF shaped ok, of 50 0 "[]"]
  by (simp add: fit_def)

lemma fit_failure:
  assumes shaped: "\<forall>p q. same_shape (backward E p x y) (backward E q x y)"
    and ok: "\<forall>j<k. log_marginal_likelihood E (snd (adam_trajectory E x y (adam_init E, p) j)) x y = Inr (l j)"
    and k: "k < 50"
    and fail: "log_marginal_likelihood E (snd (adam_trajectory E x y (adam_init E, p) k)) x y = Inl e"
  shows "fit E x y p = Inl e"
proof -
  have "[0..<k + (50 - k)] = [0..<k] @ [k..<k + (50 - k)]"
    by (rule upt_add_eq_append) simp
  then have "[0..<50] = [0..<0 + k] @ (0 + k) # [Suc k..<50]"
    using k by (simp add: upt_conv_Cons)
  then show ?thesis
    using train_loop_first_failure [OF shaped ok fail, of 50 0 "[Suc k..<50]" "[]"]
    by (simp add: fit_def)
qed

lemma jitter_retry_Inl:
  "jitter_retry chol K js = Inl e \<longleftrightarrow>
     e = NumericalInstability \<and> (\<forall>j\<in>set js. chol (add_diag K j) = None)"
  by (induction js) (auto split: option.splits)

lemma factorize_Inl:
  "factorize A K = Inl e \<longleftrightarrow>
     e = NumericalInstability \<and> cholesky A K = None \<and>
     (\<forall>j\<in>set (jitter_schedule A). cholesky A (add_diag K j) = None)"
  by (auto simp: factorize_def jitter_retry_Inl split: option.splits)

lemma exact_mll_Inl:
  "exact_mll A p (forward p x) y = Inl e \<longleftrightarrow> factorize A (K_noisy p x) = Inl e"
  by (simp add: exact_mll_def forward_def K_noisy_def split: sum.splits)

lemma posterior_predictive_Inl:
  "posterior_predictive A p X y Xs = Inl e \<longleftrightarrow> factorize A (K_noisy p X) = Inl e"
  by (simp add: posterior_predictive_def K_noisy_def covar_module_def Let_def split: sum.splits)

lemma observed_pred_Inl:
  "observed_pred E p x y = Inl e \<longleftrightarrow> posterior E p x y test_x = Inl e"
  by (simp add: observed_pred_def split: sum.splits)

lemma observed_pred_Inr:
  "observed_pred E p x y = Inr rv \<longleftrightarrow>
     (\<exists>post. posterior E p x y test_x = Inr post \<and> rv = likelihood p post)"
  by (auto simp: observed_pred_def split: sum.splits)

lemma fit_Inr_all_ok:
  assumes shaped: "\<forall>p q. same_shape (backward E p x y) (backward E q x y)"
    and fit: "fit E x y p = Inr st'"
  shows "\<forall>k<50. \<exists>l. log_marginal_likelihood E (snd (adam_trajectory E x y (adam_init E, p) k)) x y = Inr l"
proof (rule ccontr)
  let ?lml = "\<lambda>k. log_marginal_likelihood E (snd (adam_trajectory E x y (adam_init E, p) k)) x y"
  let ?bad = "\<lambda>k. k < 50 \<and> (\<forall>l. ?lml k \<noteq> Inr l)"
  assume "\<not> (\<forall>k<50. \<exists>l. ?lml k = Inr l)"
  then have ex: "\<exists>k. ?bad k" by auto
  define k0 where "k0 = (LEAST k. ?bad k)"
  have k0: "?bad k0"
    unfolding k0_def using ex by (rule LeastI_ex)
  have before: "\<forall>j<k0. ?lml j = Inr (projr (?lml j))"
  proof (intro allI impI)
    fix j assume j: "j < k0"
    then have "\<not> ?bad j"
      unfolding k0_def by (rule not_less_Least)
    moreover have "j < 50" using j k0 by simp
    ultimately obtain l where "?lml j = Inr l" by auto
    then show "?lml j = Inr (projr (?lml j))" by simp
  qed
  obtain e where e: "?lml k0 = Inl e"
    using k0 by (cases "?lml k0") auto
  have "fit E x y p = Inl e"
    using shaped before _ e by (rule fit_failure) (use k0 in simp)
  with fit show False by simp
qed

text \<open>
  Claim C1. Where no call of an iteration raises, cell 5 runs exactly fifty iterations:
  it returns a state, it has printed fifty lines, and line \<open>k + 1\<close> carries the loss
  \<open>-log_marginal_likelihood(train_x, train_y)\<close> at the parameters that iteration
  started from. The parameters and moment estimates at the end are those of fifty
  steps of the specification's trajectory: each step takes the gradient of the loss at
  the current parameters and applies one Adam update at learning rate 0.1. The number
  of iterations does not depend on the losses \<open>l\<close>: there is no early stop. The gradient
  of the loss is assumed to have one shape at all parameters.
\<close>

theorem fit_runs_fifty_iterations:
  assumes "\<forall>p q. same_shape (backward E p x y) (backward E q x y)"
    and "\<forall>k<50. log_marginal_likelihood E (snd (adam_trajectory E x y (adam_init E, p) k)) x y = Inr (l k)"
  shows "\<exists>st'. fit E x y p = Inr st' \<and>
           printed st' = map (\<lambda>k. (k + 1, 50, - l k)) [0..<50] \<and>
           length (printed st') = 50 \<and>
           (moments (optimizer st'), params st') = adam_trajectory E x y (adam_init E, p) 50 \<and>
           lr (optimizer st') = 0.1"
  unfolding fit_success [OF assms] by simp

lemma plain_shaped:
  "\<forall>p q. same_shape (backward plain_collaborators p x y) (backward plain_collaborators q x y)"
  by (simp add: plain_collaborators_def library_def same_shape_def)

lemma plain_lml: "log_marginal_likelihood plain_collaborators p x y = Inr (- 1)"
  by (simp add: log_marginal_likelihood_def plain_collaborators_def library_def exact_mll_def
      factorize_def plain_linalg_def)

theorem fit_runs_fifty_iterations_witness:
  "\<exists>st'. fit plain_collaborators train_x (train_y (map real [0..<11])) example_params = Inr st' \<and>
     printed st' = map (\<lambda>k. (k + 1, 50, 1)) [0..<50] \<and> length (printed st') = 50 \<and>
     lr (optimizer st') = 0.1"
  using fit_runs_fifty_iterations [of plain_collaborators train_x "train_y (map real [0..<11])"
      example_params "\<lambda>_. - 1"] plain_shaped plain_lml
  by auto

text \<open>
  Claim C9. An iteration zeroes the gradient buffers before it backpropagates the new
  loss: whatever buffer it starts with (of the gradient's shape), it ends the same way,
  the buffer after it is the gradient of this iteration's loss alone, and the Adam
  update it applies is the one for that gradient.
\<close>

theorem zero_grad_isolates_iterations:
  assumes "\<forall>a. b1 = Some a \<longrightarrow> same_shape a (backward E (params st) x y)"
    and "\<forall>a. b2 = Some a \<longrightarrow> same_shape a (backward E (params st) x y)"
  shows "train_iteration E x y n i (st\<lparr>grad := b1\<rparr>) = train_iteration E x y n i (st\<lparr>grad := b2\<rparr>) \<and>
         (\<forall>st'. train_iteration E x y n i (st\<lparr>grad := b1\<rparr>) = Inr st' \<longrightarrow>
            grad st' = Some (backward E (params st) x y) \<and>
            (moments (optimizer st'), params st') =
              adam_update E (lr (optimizer st)) (moments (optimizer st)) (params st)
                (backward E (params st) x y))"
proof (cases "log_marginal_likelihood E (params st) x y")
  case (Inl e)
  then show ?thesis
    by (simp add: train_iteration_Inl)
next
  case (Inr l)
  have 1: "log_marginal_likelihood E (params (st\<lparr>grad := b1\<rparr>)) x y = Inr l"
    using Inr by simp
  have 2: "log_marginal_likelihood E (params (st\<lparr>grad := b2\<rparr>)) x y = Inr l"
    using Inr by simp
  have s1: "\<forall>a. grad (st\<lparr>grad := b1\<rparr>) = Some a \<longrightarrow>
              same_shape a (backward E (params (st\<lparr>grad := b1\<rparr>)) x y)"
    using assms(1) by simp
  have s2: "\<forall>a. grad (st\<lparr>grad := b2\<rparr>) = Some a \<longrightarrow>
              same_shape a (backward E (params (st\<lparr>grad := b2\<rparr>)) x y)"
    using assms(2) by simp
  show ?thesis
    unfolding train_iteration_Inr [OF 1 s1] train_iteration_Inr [OF 2 s2]
    by auto
qed

theorem zero_grad_isolates_iterations_witness:
  "train_iteration plain_collaborators train_x (train_y (map real [0..<11])) 50 0
     \<lparr>params = example_params, grad = None,
      optimizer = \<lparr>lr = 0.1, moments = 0\<rparr>, printed = []\<rparr> =
   train_iteration plain_collaborators train_x (train_y (map real [0..<11])) 50 0
     \<lparr>params = example_params, grad = Some (backward plain_collaborators example_params [] []),
      optimizer = \<lparr>lr = 0.1, moments = 0\<rparr>, printed = []\<rparr>"
  using zero_grad_isolates_iterations [of None plain_collaborators
      "\<lparr>params = example_params, grad = None, optimizer = \<lparr>lr = 0.1, moments = 0\<rparr>, printed = []\<rparr>"
      train_x "train_y (map real [0..<11])"
      "Some (backward plain_collaborators example_params [] [])" 50 0]
  by (simp add: plain_collaborators_def library_def same_shape_def example_params_def)

text \<open>
  Claim C8. Cell 5 and cell 6 recover no failure. Training: when the likelihood returns
  at the first \<open>k\<close> iterations and raises an error at iteration \<open>k + 1\<close>, the run of
  cell 5 ends there with that error, and a run that returns a state had the likelihood
  return at each of its fifty iterations. Prediction: cell 6 ends with the error that
  the model raises, and returns a distribution only when the model returned one. With
  the likelihood and the posterior of section 4.5, the error is raised exactly when
  the plain factorization and the factorization at every jitter of the schedule fail,
  and it is \<open>NumericalInstability\<close>; the retry makes at most one attempt for each jitter
  of the schedule.
\<close>

theorem failures_surface:
  assumes "\<forall>p q. same_shape (backward E p x y) (backward E q x y)"
  shows "(k < 50 \<and>
          (\<forall>j<k. \<exists>l. log_marginal_likelihood E
                         (snd (adam_trajectory E x y (adam_init E, p) j)) x y = Inr l) \<and>
          log_marginal_likelihood E (snd (adam_trajectory E x y (adam_init E, p) k)) x y = Inl e \<longrightarrow>
            fit E x y p = Inl e) \<and>
         (fit E x y p = Inr st' \<longrightarrow>
            (\<forall>j<50. \<exists>l. log_marginal_likelihood E
                           (snd (adam_trajectory E x y (adam_init E, p) j)) x y = Inr l)) \<and>
         (posterior E p x y test_x = Inl e \<longrightarrow> observed_pred E p x y = Inl e) \<and>
         (observed_pred E p x y = Inr rv \<longrightarrow> (\<exists>post. posterior E p x y test_x = Inr post)) \<and>
         (exact_mll A p (forward p x) y = Inl e \<longleftrightarrow>
            e = NumericalInstability \<and> cholesky A (K_noisy p x) = None \<and>
            (\<forall>j\<in>set (jitter_schedule A). cholesky A (add_diag (K_noisy p x) j) = None)) \<and>
         (posterior_predictive A p x y xs = Inl e \<longleftrightarrow>
            e = NumericalInstability \<and> cholesky A (K_noisy p x) = None \<and>
            (\<forall>j\<in>set (jitter_schedule A). cholesky A (add_diag (K_noisy p x) j) = None))"
proof -
  let ?lml = "\<lambda>j. log_marginal_likelihood E (snd (adam_trajectory E x y (adam_init E, p) j)) x y"
  have part1: "fit E x y p = Inl e"
    if k: "k < 50" and ok: "\<forall>j<k. \<exists>l. ?lml j = Inr l" and fail: "?lml k = Inl e"
  proof -
    have "\<forall>j<k. ?lml j = Inr (projr (?lml j))"
      using ok by auto
    then show ?thesis
      using assms k fail
      by (intro fit_failure [where k = k and l = "\<lambda>j. projr (?lml j)"]) auto
  qed
  have part2: "\<forall>j<50. \<exists>l. ?lml j = Inr l" if "fit E x y p = Inr st'"
    using fit_Inr_all_ok [OF assms that] .
  have part4: "\<exists>post. posterior E p x y test_x = Inr post" if "observed_pred E p x y = Inr rv"
    using that by (auto simp: observed_pred_Inr)
  show ?thesis
    using part1 part2 part4
    by (simp add: observed_pred_Inl exact_mll_Inl posterior_predictive_Inl factorize_Inl)
qed

theorem failures_surface_witness:
  "fit failing_collaborators train_x (train_y (map real [0..<11])) example_params =
     Inl NumericalInstability \<and>
   observed_pred failing_collaborators example_params train_x (train_y (map real [0..<11])) =
     Inl NumericalInstability"
proof -
  let ?y = "train_y (map real [0..<11])"
  have shaped: "\<forall>p q. same_shape (backward failing_collaborators p train_x ?y)
                   (backward failing_collaborators q train_x ?y)"
    by (simp add: failing_collaborators_def library_def same_shape_def)
  have none: "cholesky failing_linalg K = None" for K
    by (simp add: failing_linalg_def)
  have lml: "log_marginal_likelihood failing_collaborators p train_x ?y =
               exact_mll failing_linalg p (forward p train_x) ?y" for p
    by (simp add: log_marginal_likelihood_def failing_collaborators_def library_def)
  have post: "posterior failing_collaborators = posterior_predictive failing_linalg"
    by (simp add: failing_collaborators_def library_def)
  show ?thesis
    using failures_surface [OF shaped, where k = 0 and p = example_params
        and e = NumericalInstability and A = failing_linalg and xs = test_x]
    by (simp add: none lml post)
qed

section \<open>Prediction\<close>

lemma length_test_x: "length test_x = 51"
  by (simp add: test_x_def length_linspace)

lemma nth_test_x: "k < 51 \<Longrightarrow> test_x ! k = real k * 0.1"
  by (simp add: test_x_def nth_linspace)

lemma length_add_diag: "length (add_diag K d) = length K"
  by (simp add: add_diag_def)

lemma nth_add_diag:
  "i < length K \<Longrightarrow> i < length (K ! i) \<Longrightarrow> add_diag K d ! i ! i = K ! i ! i + d"
  by (simp add: add_diag_def)

lemma posterior_predictive_lengths:
  assumes "posterior_predictive A p X y Xs = Inr post"
  shows "length (rv_mean post) = length Xs \<and> length (rv_covar post) = length Xs"
  using assms
  by (auto simp: posterior_predictive_def Let_def constant_mean_def mat_vec_def mat_sub_def
      mat_mul_columns_def covariance_def split: sum.splits)

lemma nth_var_likelihood:
  assumes "i < length (rv_covar post)" and "i < length (rv_covar post ! i)"
  shows "var (likelihood p post) ! i = rv_covar post ! i ! i + noise_variance p"
  using assms by (simp add: likelihood_def var_def observe_def length_add_diag nth_add_diag)

lemma nth_confidence_region:
  assumes "confidence_region rv = (lower, upper)"
    and "i < length (rv_mean rv)" and "i < length (rv_covar rv)"
  shows "lower ! i = rv_mean rv ! i - 2 * sqrt (var rv ! i) \<and>
         upper ! i = rv_mean rv ! i + 2 * sqrt (var rv ! i)"
  using assms by (auto simp: confidence_region_def var_def Let_def)

lemma transpose_single: "transpose [xs] = map (\<lambda>x. [x]) xs"
  by (induction xs) simp_all

lemma example_kernel_zero:
  "sm_kernel (mixture_weights example_params) (mixture_frequencies example_params)
     (mixture_variances example_params) 0 = 3"
  by (simp add: sm_kernel_zero mixture_weights_def mixture_frequencies_def
      mixture_variances_def example_params_def)

lemma example_noise: "noise_variance example_params = 1"
  by (simp add: noise_variance_def log_noise_def clip_def log_noise_bounds_def example_params_def)

lemma example_mean: "mean_constant example_params = 0"
  by (simp add: mean_constant_def clip_def constant_bounds_def example_params_def)

lemma test_x_0: "test_x ! 0 = 0"
  by (simp add: nth_test_x)

lemma scalar_posterior:
  "\<exists>post. posterior scalar_collaborators example_params [0] [1 / 5] test_x = Inr post \<and>
     length (rv_mean post) = length test_x \<and> length (rv_covar post) = length test_x \<and>
     rv_mean post ! 0 = 3 / 20 \<and> rv_covar post ! 0 ! 0 = 3 / 4 \<and> 0 < length (rv_covar post ! 0)"
proof -
  let ?k = "covariance (mixture_weights example_params) (mixture_frequencies example_params)
     (mixture_variances example_params)"
  let ?post = "\<lparr>rv_mean = map2 (+) (constant_mean 0 test_x)
                     (mat_vec (?k test_x [0]) (map (\<lambda>v. v / 4) (map2 (-) [1 / 5] (constant_mean 0 [0])))),
         rv_covar = mat_sub (?k test_x test_x)
                     (mat_mul_columns (?k test_x [0]) (map (map (\<lambda>v. v / 4)) (columns (?k [0] test_x))))\<rparr>"
  have K: "?k [0] [0] = [[3]]"
    by (simp add: covariance_def example_kernel_zero)
  have f: "factorize scalar_linalg (observe (noise_variance example_params) (?k [0] [0])) = Inr [[2]]"
    unfolding K
    by (simp add: factorize_def scalar_linalg_def plain_linalg_def example_noise observe_def
        add_diag_def)
  have s: "cholesky_solve scalar_linalg [[2]] = map (\<lambda>v. v / 4)"
    by (simp add: scalar_linalg_def plain_linalg_def)
  have pp: "posterior_predictive scalar_linalg example_params [0] [1 / 5] test_x = Inr ?post"
    by (simp add: posterior_predictive_def Let_def f s example_mean)
  then have post: "posterior scalar_collaborators example_params [0] [1 / 5] test_x = Inr ?post"
    by (simp add: scalar_collaborators_def library_def)
  have l: "0 < length test_x" by (simp add: length_test_x)
  have vals: "rv_mean ?post ! 0 = 3 / 20 \<and> rv_covar ?post ! 0 ! 0 = 3 / 4 \<and>
              0 < length (rv_covar ?post ! 0)"
    using l
    by (simp add: covariance_def mat_sub_def mat_mul_columns_def columns_def transpose_single
        constant_mean_def dot_def mat_vec_def test_x_0 example_kernel_zero)
  show ?thesis
    using post vals posterior_predictive_lengths [OF pp] by blast
qed

text \<open>
  Claim C3, as amended. Cell 6 evaluates the fitted model at 51 test locations,
  \<open>0.1 i\<close> for \<open>i\<close> from 0 to 50, evenly spaced from 0 to 5, a domain between 6 and 7
  times as wide as the training domain. With \<open>\<mu>*\<close> and \<open>\<Sigma>*\<close> the mean and covariance
  that the model returns for the test locations, one entry and one row for each,
  the band is taken from \<open>observed_pred = likelihood(model(test_x))\<close>: at every test
  point \<open>i\<close> it is \<open>\<mu>*\<^sub>i\<close> minus and plus twice the square root of the variance of the
  observed prediction, and that variance is the posterior variance \<open>\<Sigma>*\<^sub>i\<^sub>i\<close> plus the noise
  variance \<open>\<sigma>\<^sup>2\<close>, which is positive.
\<close>

theorem confidence_band:
  assumes "posterior E p x y test_x = Inr post"
    and "length (rv_mean post) = length test_x" and "length (rv_covar post) = length test_x"
    and "confidence_region (likelihood p post) = (lower, upper)"
  shows "observed_pred E p x y = Inr (likelihood p post) \<and>
         length test_x = 51 \<and> hd test_x = 0 \<and> last test_x = 5 \<and>
         (\<forall>i<51. test_x ! i = real i * 0.1) \<and>
         6 * (last train_x - hd train_x) \<le> last test_x - hd test_x \<and>
         last test_x - hd test_x \<le> 7 * (last train_x - hd train_x) \<and>
         length lower = 51 \<and> length upper = 51 \<and>
         (\<forall>i<51. lower ! i = rv_mean post ! i - 2 * sqrt (var (likelihood p post) ! i) \<and>
                 upper ! i = rv_mean post ! i + 2 * sqrt (var (likelihood p post) ! i)) \<and>
         (\<forall>i<51. i < length (rv_covar post ! i) \<longrightarrow>
                 var (likelihood p post) ! i = rv_covar post ! i ! i + noise_variance p) \<and>
         0 < noise_variance p"
proof -
  let ?rv = "likelihood p post"
  have obs: "observed_pred E p x y = Inr ?rv"
    using assms(1) by (simp add: observed_pred_def)
  have len: "length (rv_mean ?rv) = 51" "length (rv_covar ?rv) = 51" "length (rv_covar post) = 51"
    using assms(2,3)
    by (simp_all add: likelihood_def observe_def length_add_diag length_test_x)
  have ends: "hd test_x = 0" "last test_x = 5" "hd train_x = 0" "last train_x = 0.75"
    by (simp_all add: test_x_def train_x_def hd_linspace last_linspace)
  have m: "rv_mean ?rv = rv_mean post"
    by (simp add: likelihood_def)
  have band: "\<forall>i<51. lower ! i = rv_mean post ! i - 2 * sqrt (var ?rv ! i) \<and>
                 upper ! i = rv_mean post ! i + 2 * sqrt (var ?rv ! i)"
    using nth_confidence_region [OF assms(4)] len(1,2) m by simp
  have lens: "length lower = 51" "length upper = 51"
    using assms(4) len(1,2) by (auto simp: confidence_region_def var_def Let_def)
  have noise: "\<forall>i<51. i < length (rv_covar post ! i) \<longrightarrow>
                 var ?rv ! i = rv_covar post ! i ! i + noise_variance p"
    using nth_var_likelihood [of _ post p] len(3) by simp
  have pos: "0 < noise_variance p"
    by (simp add: noise_variance_def)
  show ?thesis
    using obs band lens noise pos by (simp add: ends length_test_x nth_test_x)
qed

theorem confidence_band_witness:
  "\<exists>post lower upper.
     posterior scalar_collaborators example_params [0] [1 / 5] test_x = Inr post \<and>
     confidence_region (likelihood example_params post) = (lower, upper) \<and>
     observed_pred scalar_collaborators example_params [0] [1 / 5] = Inr (likelihood example_params post) \<and>
     length lower = 51 \<and> length upper = 51 \<and>
     lower ! 0 = 3 / 20 - 2 * sqrt (3 / 4 + 1) \<and> upper ! 0 = 3 / 20 + 2 * sqrt (3 / 4 + 1)"
proof -
  obtain post where post: "posterior scalar_collaborators example_params [0] [1 / 5] test_x = Inr post"
    and lm: "length (rv_mean post) = length test_x" and lc: "length (rv_covar post) = length test_x"
    and m: "rv_mean post ! 0 = 3 / 20" and c: "rv_covar post ! 0 ! 0 = 3 / 4"
    and r: "0 < length (rv_covar post ! 0)"
    using scalar_posterior by blast
  obtain lower upper where cr: "confidence_region (likelihood example_params post) = (lower, upper)"
    by (cases "confidence_region (likelihood example_params post)")
  have "lower ! 0 = 3 / 20 - 2 * sqrt (3 / 4 + 1) \<and> upper ! 0 = 3 / 20 + 2 * sqrt (3 / 4 + 1)"
    using confidence_band [OF post lm lc cr] r
    unfolding m [symmetric] c [symmetric] example_noise [symmetric] by simp
  then show ?thesis
    using post cr confidence_band [OF post lm lc cr] by blast
qed

text \<open>
  Claim C3 as it is written takes the variance of the band to be the posterior variance
  \<open>\<Sigma>*\<^sub>i\<^sub>i\<close> that the model returns. With one training point at 0 with target 0.2, the
  posterior of section 4.5 over exact linear algebra and the example parameters, the
  posterior at the test point 0 has mean \<open>3/20\<close> and variance \<open>3/4\<close>, and the lower end
  of the band there is \<open>3/20 - 2 sqrt (7/4)\<close>, not \<open>3/20 - 2 sqrt (3/4)\<close>: the noise
  variance 1 is added.
\<close>

theorem band_includes_noise:
  "\<not> isl (observed_pred scalar_collaborators example_params [0] [1 / 5]) \<and>
   \<not> isl (posterior scalar_collaborators example_params [0] [1 / 5] test_x) \<and>
   fst (confidence_region (projr (observed_pred scalar_collaborators example_params [0] [1 / 5]))) ! 0 \<noteq>
   rv_mean (projr (posterior scalar_collaborators example_params [0] [1 / 5] test_x)) ! 0 -
   2 * sqrt (rv_covar (projr (posterior scalar_collaborators example_params [0] [1 / 5] test_x)) ! 0 ! 0)"
proof -
  obtain post where post: "posterior scalar_collaborators example_params [0] [1 / 5] test_x = Inr post"
    and lm: "length (rv_mean post) = length test_x" and lc: "length (rv_covar post) = length test_x"
    and m: "rv_mean post ! 0 = 3 / 20" and c: "rv_covar post ! 0 ! 0 = 3 / 4"
    and r: "0 < length (rv_covar post ! 0)"
    using scalar_posterior by blast
  have lens: "length (rv_mean post) = 51" "length (rv_covar post) = 51"
    using lm lc by (simp_all add: length_test_x)
  have obs: "observed_pred scalar_collaborators example_params [0] [1 / 5] = Inr (likelihood example_params post)"
    using post by (simp add: observed_pred_def)
  have v: "var (likelihood example_params post) ! 0 = 7 / 4"
    using lens r c nth_var_likelihood [of 0 post example_params] by (simp add: example_noise)
  obtain lower upper where cr: "confidence_region (likelihood example_params post) = (lower, upper)"
    by (cases "confidence_region (likelihood example_params post)")
  have "lower ! 0 = rv_mean (likelihood example_params post) ! 0 -
          2 * sqrt (var (likelihood example_params post) ! 0)"
    using nth_confidence_region [OF cr, of 0] lens
    by (simp add: likelihood_def observe_def length_add_diag)
  then have low: "lower ! 0 = 3 / 20 - 2 * sqrt (7 / 4)"
    using v m by (simp add: likelihood_def)
  have "sqrt (7 / 4) \<noteq> sqrt (3 / 4)"
    by simp
  then have "lower ! 0 \<noteq> 3 / 20 - 2 * sqrt (3 / 4)"
    using low by simp
  then have "lower ! 0 \<noteq> rv_mean post ! 0 - 2 * sqrt (rv_covar post ! 0 ! 0)"
    unfolding m c .
  then show ?thesis
    using post obs cr by simp
qed

end
